theory Spec2Isabelle
  imports Complex_Main "HOL-Library.AList"
begin

section \<open>JavaScript values\<close>

text \<open>
  The services work on \<^verbatim>\<open>unknown\<close> values and on \<^verbatim>\<open>Record<string, unknown>\<close>
  attribute bags. A value is one of the JSON-shaped runtime values. Numbers are
  modelled by the reals: the finite values, with exact arithmetic and exact
  comparison (no NaN, no infinities, no rounding of doubles). Objects are
  association lists of their own enumerable properties, in enumeration order;
  property reads see own properties only.
\<close>

datatype jsval =
    JUndefined
  | JNull
  | JBool bool
  | JNum real
  | JStr string
  | JArr "jsval list"
  | JObj "(string \<times> jsval) list"

datatype jstype = TUndefined | TObject | TBoolean | TNumber | TString

text \<open>The \<^verbatim>\<open>typeof\<close> operator: \<^verbatim>\<open>null\<close>, arrays and objects all answer "object".\<close>

fun typeof :: "jsval \<Rightarrow> jstype" where
  "typeof JUndefined = TUndefined"
| "typeof JNull = TObject"
| "typeof (JBool _) = TBoolean"
| "typeof (JNum _) = TNumber"
| "typeof (JStr _) = TString"
| "typeof (JArr _) = TObject"
| "typeof (JObj _) = TObject"

fun isArray :: "jsval \<Rightarrow> bool" where
  "isArray (JArr _) = True"
| "isArray _ = False"

text \<open>
  Strict equality \<^verbatim>\<open>===\<close>. Primitives compare by value. Arrays and objects
  compare by reference; the two operands of every \<^verbatim>\<open>===\<close> in the services
  come from different objects (two snapshots, or an attribute bag and a profile),
  so the answer on them is \<open>False\<close>.
\<close>

fun strictEquals :: "jsval \<Rightarrow> jsval \<Rightarrow> bool" where
  "strictEquals JUndefined JUndefined = True"
| "strictEquals JNull JNull = True"
| "strictEquals (JBool x) (JBool y) = (x = y)"
| "strictEquals (JNum x) (JNum y) = (x = y)"
| "strictEquals (JStr x) (JStr y) = (x = y)"
| "strictEquals _ _ = False"

text \<open>Truthiness, as used by \<^verbatim>\<open>||\<close> and \<^verbatim>\<open>!\<close>.\<close>

fun truthy :: "jsval \<Rightarrow> bool" where
  "truthy JUndefined = False"
| "truthy JNull = False"
| "truthy (JBool b) = b"
| "truthy (JNum x) = (x \<noteq> 0)"
| "truthy (JStr s) = (s \<noteq> [])"
| "truthy (JArr _) = True"
| "truthy (JObj _) = True"

text \<open>Decimal rendering of an array index, the form \<^verbatim>\<open>Object.keys\<close> gives it.\<close>

function showIndex :: "nat \<Rightarrow> string" where
  "showIndex n =
     (if n < 10 then [''0123456789'' ! n]
      else showIndex (n div 10) @ [''0123456789'' ! (n mod 10)])"
  by pat_completeness auto
termination
  by (relation "measure (\<lambda>n. n)") auto

declare showIndex.simps [simp del]

text \<open>Reading a property of a record-like object: a missing key reads \<^verbatim>\<open>undefined\<close>.\<close>

definition getField :: "(string \<times> jsval) list \<Rightarrow> string \<Rightarrow> jsval" where
  "getField obj key = (case map_of obj key of None \<Rightarrow> JUndefined | Some v \<Rightarrow> v)"

text \<open>\<^verbatim>\<open>Object.keys\<close> and indexed reads, for arrays and objects.\<close>

fun elems :: "jsval \<Rightarrow> jsval list" where
  "elems (JArr xs) = xs"
| "elems _ = []"

fun ownProps :: "jsval \<Rightarrow> (string \<times> jsval) list" where
  "ownProps (JObj kvs) = kvs"
| "ownProps (JArr xs) = zip (map showIndex [0..<length xs]) xs"
| "ownProps _ = []"

definition objectKeys :: "jsval \<Rightarrow> string list" where
  "objectKeys v = map fst (ownProps v)"

definition getProp :: "jsval \<Rightarrow> string \<Rightarrow> jsval" where
  "getProp v key = getField (ownProps v) key"

lemma size_map_of_less:
  "map_of kvs k = Some v \<Longrightarrow> size v < Suc (size_list (size_prod (\<lambda>_. 0) size) kvs)"
  by (induction kvs) (auto split: if_splits)

lemma size_getProp_less:
  assumes "typeof a = TObject" and "a \<noteq> JNull"
  shows "size (getProp a key) < size a"
proof (cases a)
  case (JArr xs)
  show ?thesis
  proof (cases "map_of (zip (map showIndex [0..<length xs]) xs) key")
    case None
    show ?thesis
      unfolding getProp_def getField_def JArr ownProps.simps None by simp
  next
    case (Some v)
    from Some have "v \<in> set xs"
      by (auto dest!: map_of_SomeD set_zip_rightD)
    then have "size v \<le> size_list size xs"
      by (rule size_list_estimation') simp
    then show ?thesis
      unfolding getProp_def getField_def JArr ownProps.simps Some by simp
  qed
next
  case (JObj kvs)
  show ?thesis
  proof (cases "map_of kvs key")
    case None
    show ?thesis
      unfolding getProp_def getField_def JObj ownProps.simps None by simp
  next
    case (Some v)
    from size_map_of_less [OF Some] show ?thesis
      unfolding getProp_def getField_def JObj ownProps.simps Some by simp
  qed
qed (use assms in auto)

lemma size_elems_nth_less:
  assumes "isArray a" and "i < length (elems a)"
  shows "size (elems a ! i) < size a"
proof (cases a)
  case (JArr xs)
  with assms have "xs ! i \<in> set xs" by simp
  then have "size (xs ! i) \<le> size_list size xs"
    by (rule size_list_estimation') simp
  with JArr show ?thesis by simp
qed (use assms in auto)

section \<open>Enrichment ledger: \<^verbatim>\<open>services/enrichmentSync.ts\<close>\<close>

text \<open>
  \<^verbatim>\<open>deepEqual\<close>, branch for branch. The first test is \<^verbatim>\<open>a === b\<close>; on arrays
  and objects it is a reference test, and \<open>deepEqual_refl\<close> below shows that the
  structural branches give \<open>True\<close> on one and the same value anyway.
\<close>

function deepEqual :: "jsval \<Rightarrow> jsval \<Rightarrow> bool" where
  "deepEqual a b =
     (if strictEquals a b then True
      else if a = JUndefined \<and> b = JUndefined then True
      else if a = JNull \<and> b = JNull then True
      else if a = JUndefined \<or> b = JUndefined then False
      else if a = JNull \<or> b = JNull then False
      else if typeof a \<noteq> typeof b then False
      else if isArray a \<and> isArray b then
        (if length (elems a) \<noteq> length (elems b) then False
         else list_all (\<lambda>idx. deepEqual (elems a ! idx) (elems b ! idx))
                [0..<length (elems a)])
      else if typeof a = TObject \<and> typeof b = TObject then
        (if length (objectKeys a) \<noteq> length (objectKeys b) then False
         else list_all (\<lambda>key. deepEqual (getProp a key) (getProp b key))
                (objectKeys a))
      else False)"
  by pat_completeness auto
termination
proof (relation "measure (\<lambda>(a, b). size a)", goal_cases)
  case 1
  show ?case by simp
next
  case (2 a b idx)
  then show ?case by (simp add: size_elems_nth_less)
next
  case (3 a b key)
  then show ?case by (simp add: size_getProp_less)
qed

declare deepEqual.simps [simp del]

text \<open>The fixed list of fields a delta is computed over.\<close>

definition trackableFields :: "string list" where
  "trackableFields =
     [''employeeCount'', ''annualRevenue'', ''industry'', ''description'',
      ''linkedinUrl'', ''website'', ''phone'', ''address'', ''city'', ''state'',
      ''country'', ''postalCode'', ''foundedYear'', ''technologies'',
      ''fundingTotal'', ''lastFundingDate'', ''title'', ''department'',
      ''seniority'']"

datatype EntityType = Company | Contact

datatype Source = Apollo | ZoomInfo

record EnrichmentData =
  entityType :: EntityType
  entityId :: string
  source :: Source
  data :: "(string \<times> jsval) list"
  timestamp :: string

record FieldChange =
  field :: string
  oldValue :: jsval
  newValue :: jsval

record EnrichmentDelta =
  deltaEntityType :: EntityType
  deltaEntityId :: string
  deltaHubspotId :: jsval
  deltaSource :: Source
  changes :: "FieldChange list"
  deltaTimestamp :: string

fun entityTypeString :: "EntityType \<Rightarrow> string" where
  "entityTypeString Company = ''company''"
| "entityTypeString Contact = ''contact''"

fun sourceString :: "Source \<Rightarrow> string" where
  "sourceString Apollo = ''apollo''"
| "sourceString ZoomInfo = ''zoominfo''"

definition getEnrichmentKey :: "EntityType \<Rightarrow> string \<Rightarrow> Source \<Rightarrow> string" where
  "getEnrichmentKey et eid src =
     entityTypeString et @ '':'' @ eid @ '':'' @ sourceString src"

text \<open>The loop of \<^verbatim>\<open>detectChanges\<close>, with the list it pushes to as accumulator.\<close>

fun detectChangesFrom ::
  "string list \<Rightarrow> (string \<times> jsval) list \<Rightarrow> (string \<times> jsval) list \<Rightarrow>
   FieldChange list \<Rightarrow> FieldChange list" where
  "detectChangesFrom [] oldData newData acc = acc"
| "detectChangesFrom (f # fs) oldData newData acc =
     (let oldV = getField oldData f; newV = getField newData f
      in detectChangesFrom fs oldData newData
           (if \<not> deepEqual oldV newV
            then acc @ [\<lparr>field = f, oldValue = oldV, newValue = newV\<rparr>]
            else acc))"

definition detectChanges ::
  "(string \<times> jsval) list \<Rightarrow> (string \<times> jsval) list \<Rightarrow> FieldChange list" where
  "detectChanges oldData newData = detectChangesFrom trackableFields oldData newData []"

type_synonym enrichmentStore = "string \<rightharpoonup> EnrichmentData"

text \<open>
  \<^verbatim>\<open>storeEnrichmentData\<close>: the module-level map is passed in and returned; \<open>now\<close>
  is the text \<^verbatim>\<open>new Date().toISOString()\<close> produces. \<open>None\<close> is \<^verbatim>\<open>null\<close>.
\<close>

definition storeEnrichmentData ::
  "string \<Rightarrow> EnrichmentData \<Rightarrow> enrichmentStore \<Rightarrow>
   EnrichmentDelta option \<times> enrichmentStore" where
  "storeEnrichmentData now enrichment store =
     (let key = getEnrichmentKey (entityType enrichment) (entityId enrichment)
                  (source enrichment)
      in case store key of
           None \<Rightarrow> (None, store(key \<mapsto> enrichment))
         | Some existing \<Rightarrow>
             (let chs = detectChanges (data existing) (data enrichment);
                  store' = store(key \<mapsto> enrichment)
              in if length chs = 0 then (None, store')
                 else (Some \<lparr>deltaEntityType = entityType enrichment,
                             deltaEntityId = entityId enrichment,
                             deltaHubspotId = getField (data enrichment) ''hubspotId'',
                             deltaSource = source enrichment,
                             changes = chs,
                             deltaTimestamp = now\<rparr>, store')))"






section \<open>Rule evaluator: \<^verbatim>\<open>services/icpPersonaScoring.ts\<close>\<close>

text \<open>
  \<^verbatim>\<open>Math.round\<close> rounds to the nearest integer, a half towards plus infinity.
\<close>

definition Math_round :: "real \<Rightarrow> real" where
  "Math_round x = of_int \<lfloor>x + 1 / 2\<rfloor>"

text \<open>\<^verbatim>\<open>s.includes(t)\<close>: \<open>t\<close> occurs in \<open>s\<close> as a contiguous run.\<close>

fun String_includes :: "string \<Rightarrow> string \<Rightarrow> bool" where
  "String_includes [] t = (t = [])"
| "String_includes (c # s) t = (take (length t) (c # s) = t \<or> String_includes s t)"

text \<open>
  \<^verbatim>\<open>Number.MAX_SAFE_INTEGER\<close> is \<open>2^53 - 1\<close> and \<^verbatim>\<open>Number.MIN_SAFE_INTEGER\<close> its
  negation.
\<close>

definition MAX_SAFE_INTEGER :: real where
  "MAX_SAFE_INTEGER = 9007199254740991"

definition MIN_SAFE_INTEGER :: real where
  "MIN_SAFE_INTEGER = - 9007199254740991"

datatype ICPOperator = OpEquals | OpContains | OpRange | OpIn

record ICPCriterionConfig =
  critName :: string
  critField :: string
  critWeight :: real
  critOperator :: ICPOperator
  critValue :: jsval
  minValue :: "real option"
  maxValue :: "real option"


datatype PersonaOperator = POpEquals | POpContains | POpIn

record PersonaAttributeConfig =
  attrName :: string
  attrField :: string
  attrWeight :: real
  attrOperator :: PersonaOperator
  attrValues :: "string list"

record PersonaProfile =
  personaName :: string
  attributes :: "PersonaAttributeConfig list"


datatype Tier = A | B | C | D


record PersonaAttribute =
  paName :: string
  paValue :: jsval
  paWeight :: real
  paMatched :: bool

record PersonaScore =
  contactId :: jsval
  hubspotContactId :: jsval
  email :: jsval
  personaType :: string
  personaMatchScore :: real
  personaAttributes :: "PersonaAttribute list"

text \<open>
  \<^verbatim>\<open>evaluateCriterion\<close>. \<open>toLowerCase\<close> stands for the runtime's
  \<^verbatim>\<open>String.prototype.toLowerCase\<close>; the evaluator is modelled for any such
  function.
\<close>

definition evaluateCriterion ::
  "(string \<Rightarrow> string) \<Rightarrow> jsval \<Rightarrow> ICPCriterionConfig \<Rightarrow> bool" where
  "evaluateCriterion toLowerCase v criterion =
     (if strictEquals v JUndefined \<or> strictEquals v JNull then False
      else case critOperator criterion of
        OpEquals \<Rightarrow> strictEquals v (critValue criterion)
      | OpContains \<Rightarrow>
          (if typeof v = TString \<and> typeof (critValue criterion) = TString
           then (case (v, critValue criterion) of
                   (JStr s, JStr t) \<Rightarrow> String_includes (toLowerCase s) (toLowerCase t)
                 | _ \<Rightarrow> False)
           else False)
      | OpRange \<Rightarrow>
          (case v of
             JNum x \<Rightarrow>
               (let mn = (case minValue criterion of None \<Rightarrow> MIN_SAFE_INTEGER | Some m \<Rightarrow> m);
                    mx = (case maxValue criterion of None \<Rightarrow> MAX_SAFE_INTEGER | Some m \<Rightarrow> m)
                in x \<ge> mn \<and> x \<le> mx)
           | _ \<Rightarrow> False)
      | OpIn \<Rightarrow>
          (if isArray (critValue criterion)
           then list_ex
                  (\<lambda>e. case (e, v) of
                          (JStr t, JStr s) \<Rightarrow> toLowerCase s = toLowerCase t
                        | _ \<Rightarrow> strictEquals v e)
                  (elems (critValue criterion))
           else False))"




definition evaluatePersonaAttribute ::
  "(string \<Rightarrow> string) \<Rightarrow> jsval \<Rightarrow> PersonaAttributeConfig \<Rightarrow> bool" where
  "evaluatePersonaAttribute toLowerCase v attr =
     (if strictEquals v JUndefined \<or> strictEquals v JNull \<or> typeof v \<noteq> TString
      then False
      else case v of
        JStr s \<Rightarrow>
          (let lowerValue = toLowerCase s
           in case attrOperator attr of
                POpEquals \<Rightarrow> list_ex (\<lambda>e. lowerValue = toLowerCase e) (attrValues attr)
              | POpContains \<Rightarrow>
                  list_ex (\<lambda>e. String_includes lowerValue (toLowerCase e)) (attrValues attr)
              | POpIn \<Rightarrow> list_ex (\<lambda>e. lowerValue = toLowerCase e) (attrValues attr))
      | _ \<Rightarrow> False)"

text \<open>
  The loop of \<^verbatim>\<open>evaluatePersonaProfile\<close>; the accumulator holds \<^verbatim>\<open>attributes\<close>,
  \<^verbatim>\<open>totalWeight\<close> and \<^verbatim>\<open>matchedWeight\<close>.
\<close>

fun personaLoop ::
  "(string \<Rightarrow> string) \<Rightarrow> (string \<times> jsval) list \<Rightarrow> PersonaAttributeConfig list \<Rightarrow>
   PersonaAttribute list \<times> real \<times> real \<Rightarrow> PersonaAttribute list \<times> real \<times> real" where
  "personaLoop toLowerCase contactData [] acc = acc"
| "personaLoop toLowerCase contactData (attr # rest) (attrs, totalWeight, matchedWeight) =
     (let fieldValue = getField contactData (attrField attr);
          m = evaluatePersonaAttribute toLowerCase fieldValue attr
      in personaLoop toLowerCase contactData rest
           (attrs @ [\<lparr>paName = attrName attr,
                      paValue = (if truthy fieldValue then fieldValue else JStr []),
                      paWeight = attrWeight attr,
                      paMatched = m\<rparr>],
            totalWeight + attrWeight attr,
            (if m then matchedWeight + attrWeight attr else matchedWeight)))"

definition evaluatePersonaProfile ::
  "(string \<Rightarrow> string) \<Rightarrow> (string \<times> jsval) list \<Rightarrow> PersonaProfile \<Rightarrow>
   real \<times> PersonaAttribute list" where
  "evaluatePersonaProfile toLowerCase contactData profile =
     (case personaLoop toLowerCase contactData (attributes profile) ([], 0, 0) of
        (attrs, totalWeight, matchedWeight) \<Rightarrow>
          ((if totalWeight > 0
            then Math_round ((matchedWeight / totalWeight) * 100)
            else 0), attrs))"

text \<open>
  The loop of \<^verbatim>\<open>calculatePersonaScore\<close> over the profiles; the accumulator is
  \<^verbatim>\<open>bestMatch\<close>, \<open>None\<close> for \<^verbatim>\<open>null\<close>.
\<close>

fun bestMatchLoop ::
  "(string \<Rightarrow> string) \<Rightarrow> (string \<times> jsval) list \<Rightarrow> PersonaProfile list \<Rightarrow>
   (PersonaProfile \<times> real \<times> PersonaAttribute list) option \<Rightarrow>
   (PersonaProfile \<times> real \<times> PersonaAttribute list) option" where
  "bestMatchLoop toLowerCase contactData [] bestMatch = bestMatch"
| "bestMatchLoop toLowerCase contactData (profile # rest) bestMatch =
     (case evaluatePersonaProfile toLowerCase contactData profile of
        (score, attrs) \<Rightarrow>
          bestMatchLoop toLowerCase contactData rest
            (case bestMatch of
               None \<Rightarrow> Some (profile, score, attrs)
             | Some (bp, bs, bas) \<Rightarrow>
                 (if score > bs then Some (profile, score, attrs) else bestMatch)))"

definition calculatePersonaScore ::
  "(string \<Rightarrow> string) \<Rightarrow> (string \<times> jsval) list \<Rightarrow> PersonaProfile list \<Rightarrow> PersonaScore" where
  "calculatePersonaScore toLowerCase contactData profiles =
     (let cid = (if truthy (getField contactData ''id'')
                 then getField contactData ''id'' else JStr ''unknown'');
          mail = (if truthy (getField contactData ''email'')
                  then getField contactData ''email'' else JStr [])
      in case bestMatchLoop toLowerCase contactData profiles None of
           None \<Rightarrow>
             \<lparr>contactId = cid,
              hubspotContactId = getField contactData ''hubspotId'',
              email = mail,
              personaType = ''Unknown'',
              personaMatchScore = 0,
              personaAttributes = []\<rparr>
         | Some (bp, bs, bas) \<Rightarrow>
             \<lparr>contactId = cid,
              hubspotContactId = getField contactData ''hubspotId'',
              email = mail,
              personaType = personaName bp,
              personaMatchScore = bs,
              personaAttributes = bas\<rparr>)"


definition defaultPersonaProfiles :: "PersonaProfile list" where
  "defaultPersonaProfiles =
     [\<lparr>personaName = ''Decision Maker'',
       attributes =
         [\<lparr>attrName = ''Title Level'', attrField = ''title'', attrWeight = 5 / 10,
           attrOperator = POpContains,
           attrValues = [''CEO'', ''CTO'', ''CFO'', ''VP'', ''Director'', ''Head of'']\<rparr>,
          \<lparr>attrName = ''Department'', attrField = ''department'', attrWeight = 3 / 10,
           attrOperator = POpIn,
           attrValues = [''Executive'', ''Sales'', ''Marketing'', ''Operations'']\<rparr>,
          \<lparr>attrName = ''Seniority'', attrField = ''seniority'', attrWeight = 2 / 10,
           attrOperator = POpIn,
           attrValues = [''C-Level'', ''VP'', ''Director'']\<rparr>]\<rparr>,
      \<lparr>personaName = ''Technical Evaluator'',
       attributes =
         [\<lparr>attrName = ''Title Level'', attrField = ''title'', attrWeight = 4 / 10,
           attrOperator = POpContains,
           attrValues = [''Engineer'', ''Developer'', ''Architect'', ''Technical'']\<rparr>,
          \<lparr>attrName = ''Department'', attrField = ''department'', attrWeight = 4 / 10,
           attrOperator = POpIn,
           attrValues = [''Engineering'', ''IT'', ''Technology'', ''Product'']\<rparr>,
          \<lparr>attrName = ''Seniority'', attrField = ''seniority'', attrWeight = 2 / 10,
           attrOperator = POpIn,
           attrValues = [''Senior'', ''Lead'', ''Principal'', ''Staff'']\<rparr>]\<rparr>,
      \<lparr>personaName = ''End User'',
       attributes =
         [\<lparr>attrName = ''Title Level'', attrField = ''title'', attrWeight = 3 / 10,
           attrOperator = POpContains,
           attrValues = [''Manager'', ''Specialist'', ''Analyst'', ''Coordinator'']\<rparr>,
          \<lparr>attrName = ''Department'', attrField = ''department'', attrWeight = 5 / 10,
           attrOperator = POpIn,
           attrValues = [''Sales'', ''Marketing'', ''Customer Success'', ''Support'']\<rparr>,
          \<lparr>attrName = ''Seniority'', attrField = ''seniority'', attrWeight = 2 / 10,
           attrOperator = POpIn,
           attrValues = [''Manager'', ''Individual Contributor'']\<rparr>]\<rparr>]"

text \<open>Lower-casing of the ASCII letters, an instance of \<open>toLowerCase\<close> for examples.\<close>

definition asciiLowerChar :: "char \<Rightarrow> char" where
  "asciiLowerChar c =
     (case map_of (zip ''ABCDEFGHIJKLMNOPQRSTUVWXYZ'' ''abcdefghijklmnopqrstuvwxyz'') c of
        None \<Rightarrow> c
      | Some l \<Rightarrow> l)"

definition asciiToLowerCase :: "string \<Rightarrow> string" where
  "asciiToLowerCase s = map asciiLowerChar s"

section \<open>Score calculator: \<^verbatim>\<open>services/scoringEngine.ts\<close>\<close>

text \<open>
  A signal's \<open>sigTimestamp\<close> is the instant \<^verbatim>\<open>new Date(signal.timestamp).getTime()\<close>
  denotes, in milliseconds. The clock \<^verbatim>\<open>new Date()\<close> is the parameter \<open>now\<close>, in
  milliseconds as well: one computation reads one instant. The optional
  \<^verbatim>\<open>metadata\<close> of a signal and \<^verbatim>\<open>hubspotCompanyId\<close> of a score, which the
  calculator neither reads nor sets, are left out. \<open>defaultConfig\<close> holds the
  values the module takes when the environment sets none.
\<close>

record IntentSignal =
  sigSource :: Source
  sigCompanyId :: string
  sigCompanyName :: string
  sigDomain :: "string option"
  topic :: string
  signalStrength :: real
  sigTimestamp :: real

datatype Trend = Increasing | Stable | Decreasing

record TopicScore =
  tsTopic :: string
  tsScore :: real
  tsSources :: "Source list"

record UnifiedIntentScore =
  usCompanyId :: string
  usCompanyName :: string
  usDomain :: "string option"
  overallScore :: real
  apolloScore :: real
  zoomInfoScore :: real
  topTopics :: "TopicScore list"
  signalCount :: nat
  lastUpdated :: real
  trend :: Trend
  isSpike :: bool

record ScoringConfig =
  apolloWeight :: real
  zoomInfoWeight :: real
  decayDays :: real
  spikeThresholdPercent :: real

definition defaultConfig :: ScoringConfig where
  "defaultConfig =
     \<lparr>apolloWeight = 5 / 10, zoomInfoWeight = 5 / 10, decayDays = 30,
      spikeThresholdPercent = 25\<rparr>"

record EngineState =
  signalStore :: "string \<rightharpoonup> IntentSignal list"
  scoreCache :: "string \<rightharpoonup> UnifiedIntentScore"

definition addIntentSignal :: "IntentSignal \<Rightarrow> EngineState \<Rightarrow> EngineState" where
  "addIntentSignal signal st =
     (let key = sigCompanyId signal;
          existing = (case signalStore st key of None \<Rightarrow> [] | Some xs \<Rightarrow> xs)
      in st\<lparr>signalStore := (signalStore st)(key \<mapsto> existing @ [signal])\<rparr>)"

definition getSignalsForCompany :: "string \<Rightarrow> EngineState \<Rightarrow> IntentSignal list" where
  "getSignalsForCompany cid st = (case signalStore st cid of None \<Rightarrow> [] | Some xs \<Rightarrow> xs)"

definition calculateDecay :: "real \<Rightarrow> real \<Rightarrow> real \<Rightarrow> real" where
  "calculateDecay now signalDate dDays =
     (let daysDiff = (now - signalDate) / (1000 * 60 * 60 * 24)
      in if daysDiff \<le> 0 then 1
         else if daysDiff \<ge> dDays then 0
         else 1 - (daysDiff / dDays))"

text \<open>
  The loop of \<^verbatim>\<open>calculateSourceScore\<close>; the accumulator holds \<^verbatim>\<open>weightedSum\<close>
  and \<^verbatim>\<open>totalWeight\<close>.
\<close>

fun sourceScoreLoop ::
  "real \<Rightarrow> real \<Rightarrow> IntentSignal list \<Rightarrow> real \<times> real \<Rightarrow> real \<times> real" where
  "sourceScoreLoop now dDays [] acc = acc"
| "sourceScoreLoop now dDays (signal # rest) (weightedSum, totalWeight) =
     (let decay = calculateDecay now (sigTimestamp signal) dDays
      in sourceScoreLoop now dDays rest
           (weightedSum + signalStrength signal * decay, totalWeight + decay))"

definition calculateSourceScore :: "real \<Rightarrow> IntentSignal list \<Rightarrow> real \<Rightarrow> real" where
  "calculateSourceScore now signals dDays =
     (if length signals = 0 then 0
      else case sourceScoreLoop now dDays signals (0, 0) of
             (weightedSum, totalWeight) \<Rightarrow>
               (if totalWeight = 0 then 0 else min 100 (weightedSum / totalWeight)))"

text \<open>
  The first loop of \<^verbatim>\<open>calculateTopTopics\<close> fills \<^verbatim>\<open>topicMap\<close>, a map in insertion
  order from a topic to its summed strength and the set of its sources, itself in
  insertion order.
\<close>

fun topicMapLoop ::
  "IntentSignal list \<Rightarrow> (string \<times> real \<times> Source list) list \<Rightarrow>
   (string \<times> real \<times> Source list) list" where
  "topicMapLoop [] topicMap = topicMap"
| "topicMapLoop (signal # rest) topicMap =
     (let existing = (case map_of topicMap (topic signal) of
                        None \<Rightarrow> (0, []) | Some e \<Rightarrow> e);
          srcs = (if sigSource signal \<in> set (snd existing) then snd existing
                  else snd existing @ [sigSource signal])
      in topicMapLoop rest
           (AList.update (topic signal) (fst existing + signalStrength signal, srcs)
              topicMap))"

definition calculateTopTopics :: "IntentSignal list \<Rightarrow> TopicScore list" where
  "calculateTopTopics signals =
     (let topics =
            map (\<lambda>(t, sc, srcs).
                   \<lparr>tsTopic = t,
                    tsScore = min 100
                      (Math_round (sc / real (length (filter (\<lambda>s. topic s = t) signals)))),
                    tsSources = srcs\<rparr>)
              (topicMapLoop signals [])
      in take 5 (sort_key (\<lambda>t. - tsScore t) topics))"

definition determineTrend :: "real \<Rightarrow> real option \<Rightarrow> Trend" where
  "determineTrend currentScore previousScore =
     (case previousScore of
        None \<Rightarrow> Stable
      | Some previous \<Rightarrow>
          (let diff = currentScore - previous
           in if diff > 5 then Increasing
              else if diff < - 5 then Decreasing
              else Stable))"

definition checkForSpike :: "real \<Rightarrow> real option \<Rightarrow> real \<Rightarrow> bool" where
  "checkForSpike currentScore previousScore thresholdPercent =
     (case previousScore of
        None \<Rightarrow> False
      | Some previous \<Rightarrow>
          (if previous = 0 then False
           else (let percentIncrease = ((currentScore - previous) / previous) * 100
                 in percentIncrease \<ge> thresholdPercent)))"

text \<open>
  \<^verbatim>\<open>calculateUnifiedScore\<close>: the two module-level maps are passed in and returned;
  \<open>None\<close> is \<^verbatim>\<open>null\<close>. \<open>lastUpdated\<close> keeps the instant whose ISO text the code
  stores.
\<close>

definition calculateUnifiedScore ::
  "ScoringConfig \<Rightarrow> real \<Rightarrow> string \<Rightarrow> EngineState \<Rightarrow>
   UnifiedIntentScore option \<times> EngineState" where
  "calculateUnifiedScore config now cid st =
     (let signals = getSignalsForCompany cid st
      in if length signals = 0 then (None, st)
         else
           let apolloSignals = filter (\<lambda>s. sigSource s = Apollo) signals;
               zoomInfoSignals = filter (\<lambda>s. sigSource s = ZoomInfo) signals;
               aScore = calculateSourceScore now apolloSignals (decayDays config);
               zScore = calculateSourceScore now zoomInfoSignals (decayDays config);
               overall = Math_round (aScore * apolloWeight config
                                     + zScore * zoomInfoWeight config);
               previousScore = scoreCache st cid;
               score =
                 \<lparr>usCompanyId = cid,
                  usCompanyName = (if sigCompanyName (hd signals) \<noteq> []
                                   then sigCompanyName (hd signals) else ''Unknown''),
                  usDomain = (case find (\<lambda>s. sigDomain s \<noteq> None \<and> sigDomain s \<noteq> Some [])
                                     signals of
                                None \<Rightarrow> None | Some s \<Rightarrow> sigDomain s),
                  overallScore = overall,
                  apolloScore = Math_round aScore,
                  zoomInfoScore = Math_round zScore,
                  topTopics = calculateTopTopics signals,
                  signalCount = length signals,
                  lastUpdated = now,
                  trend = determineTrend overall (map_option overallScore previousScore),
                  isSpike = checkForSpike overall (map_option overallScore previousScore)
                              (spikeThresholdPercent config)\<rparr>
           in (Some score, st\<lparr>scoreCache := (scoreCache st)(cid \<mapsto> score)\<rparr>))"

section \<open>Properties of the enrichment ledger\<close>

subsection \<open>Deep comparison\<close>

lemma strictEquals_refl: "typeof a \<noteq> TObject \<Longrightarrow> strictEquals a a"
  by (cases a) simp_all

lemma deepEqual_refl_aux: "b = a \<Longrightarrow> deepEqual a b"
proof (induction a b rule: deepEqual.induct)
  case (1 a b)
  show ?case
    using 1 by (subst deepEqual.simps) (auto simp: list_all_iff strictEquals_refl)
qed

lemma deepEqual_refl: "deepEqual a a"
  by (rule deepEqual_refl_aux) simp

lemma deepEqual_JUndefined_left: "deepEqual JUndefined b \<longleftrightarrow> b = JUndefined"
  by (cases b) (simp_all add: deepEqual.simps)

lemma deepEqual_JUndefined_right: "deepEqual a JUndefined \<longleftrightarrow> a = JUndefined"
  by (cases a) (simp_all add: deepEqual.simps)

lemma deepEqual_JNull_left: "deepEqual JNull b \<longleftrightarrow> b = JNull"
  by (cases b) (simp_all add: deepEqual.simps)

lemma deepEqual_JNull_right: "deepEqual a JNull \<longleftrightarrow> a = JNull"
  by (cases a) (simp_all add: deepEqual.simps)

lemma detectChangesFrom_eq:
  "detectChangesFrom fs oldData newData acc =
     acc @ map (\<lambda>f. \<lparr>field = f, oldValue = getField oldData f,
                      newValue = getField newData f\<rparr>)
             (filter (\<lambda>f. \<not> deepEqual (getField oldData f) (getField newData f)) fs)"
  by (induction fs arbitrary: acc) (simp_all add: Let_def)

lemma detectChanges_eq:
  "detectChanges oldData newData =
     map (\<lambda>f. \<lparr>field = f, oldValue = getField oldData f, newValue = getField newData f\<rparr>)
       (filter (\<lambda>f. \<not> deepEqual (getField oldData f) (getField newData f)) trackableFields)"
  by (simp add: detectChanges_def detectChangesFrom_eq)

text \<open>
  Claim C1, as amended. \<^verbatim>\<open>deepEqual\<close> keeps \<^verbatim>\<open>undefined\<close> and \<^verbatim>\<open>null\<close> apart:
  \<^verbatim>\<open>undefined\<close> is equal to \<^verbatim>\<open>undefined\<close> only and \<^verbatim>\<open>null\<close> to \<^verbatim>\<open>null\<close> only,
  on either side, so each is distinct from every concrete value and from the other.
  For two snapshots that differ on a trackable field by an absent old value and a
  \<^verbatim>\<open>null\<close> new value, or the other way round, \<^verbatim>\<open>detectChanges\<close> emits the
  FieldChange of that field, carrying the two values.
\<close>

theorem deepEqual_undefined_null_distinct:
  "(deepEqual JUndefined b \<longleftrightarrow> b = JUndefined)
   \<and> (deepEqual a JUndefined \<longleftrightarrow> a = JUndefined)
   \<and> (deepEqual JNull b \<longleftrightarrow> b = JNull)
   \<and> (deepEqual a JNull \<longleftrightarrow> a = JNull)
   \<and> (f \<in> set trackableFields
        \<and> (getField oldData f = JUndefined \<and> getField newData f = JNull
            \<or> getField oldData f = JNull \<and> getField newData f = JUndefined)
      \<longrightarrow> \<lparr>field = f, oldValue = getField oldData f, newValue = getField newData f\<rparr>
            \<in> set (detectChanges oldData newData))"
proof -
  have "\<lparr>field = f, oldValue = getField oldData f, newValue = getField newData f\<rparr>
          \<in> set (detectChanges oldData newData)"
    if "f \<in> set trackableFields"
      and "\<not> deepEqual (getField oldData f) (getField newData f)"
    using that by (auto simp: detectChanges_eq)
  then show ?thesis
    by (auto simp: deepEqual_JUndefined_left deepEqual_JUndefined_right
        deepEqual_JNull_left deepEqual_JNull_right)
qed

text \<open>
  The theorem at the field \<^verbatim>\<open>industry\<close>, absent in the old snapshot and
  \<^verbatim>\<open>null\<close> in the new one.
\<close>

theorem deepEqual_undefined_null_distinct_witness:
  "''industry'' \<in> set trackableFields
   \<and> getField [] ''industry'' = JUndefined
   \<and> getField [(''industry'', JNull)] ''industry'' = JNull
   \<and> \<lparr>field = ''industry'', oldValue = JUndefined, newValue = JNull\<rparr>
       \<in> set (detectChanges [] [(''industry'', JNull)])"
  using deepEqual_undefined_null_distinct
    [of JNull JNull "''industry''" "[]" "[(''industry'', JNull)]"]
  by (simp add: trackableFields_def getField_def)

text \<open>
  Claim C1 as stated fails: \<^verbatim>\<open>undefined\<close> against \<^verbatim>\<open>null\<close> is a difference, in
  both directions, and a snapshot pair differing only so on \<^verbatim>\<open>industry\<close> yields a
  FieldChange for it.
\<close>

theorem undefined_null_change_emitted:
  "\<not> deepEqual JUndefined JNull \<and> \<not> deepEqual JNull JUndefined
   \<and> detectChanges [] [(''industry'', JNull)]
       = [\<lparr>field = ''industry'', oldValue = JUndefined, newValue = JNull\<rparr>]"
  by (simp add: detectChanges_eq trackableFields_def getField_def
      deepEqual_JUndefined_left deepEqual_JNull_left)

subsection \<open>Storing a snapshot\<close>

text \<open>
  Claim C4. \<^verbatim>\<open>storeEnrichmentData\<close> always leaves the new snapshot stored under
  its key. When the key held no snapshot the result is absent. When it held one,
  the result is a delta exactly when some trackable field differs between the old
  and the new data under \<^verbatim>\<open>deepEqual\<close>; the delta lists one FieldChange per
  differing field, in the order of the trackable-field list, with the old and the
  new value, and names the snapshot's entity and source.
\<close>

theorem storeEnrichmentData_result:
  assumes "storeEnrichmentData now e store = (r, store')"
    and "key = getEnrichmentKey (entityType e) (entityId e) (source e)"
  shows "store' = store(key \<mapsto> e)
    \<and> (store key = None \<longrightarrow> r = None)
    \<and> (\<forall>old. store key = Some old \<longrightarrow>
          ((\<exists>d. r = Some d) \<longleftrightarrow>
             (\<exists>f \<in> set trackableFields.
                \<not> deepEqual (getField (data old) f) (getField (data e) f)))
          \<and> (\<forall>d. r = Some d \<longrightarrow>
                changes d =
                  map (\<lambda>f. \<lparr>field = f, oldValue = getField (data old) f,
                              newValue = getField (data e) f\<rparr>)
                    (filter (\<lambda>f. \<not> deepEqual (getField (data old) f) (getField (data e) f))
                       trackableFields)
                \<and> deltaEntityType d = entityType e \<and> deltaEntityId d = entityId e
                \<and> deltaSource d = source e))"
proof (cases "store key")
  case None
  with assms show ?thesis
    by (auto simp: storeEnrichmentData_def Let_def)
next
  case (Some old)
  have ne: "(detectChanges (data old) (data e) \<noteq> []) \<longleftrightarrow>
      (\<exists>f \<in> set trackableFields.
          \<not> deepEqual (getField (data old) f) (getField (data e) f))"
    unfolding detectChanges_eq by (simp add: filter_empty_conv)
  show ?thesis
  proof (cases "detectChanges (data old) (data e) = []")
    case True
    with assms Some ne show ?thesis
      by (auto simp: storeEnrichmentData_def Let_def)
  next
    case False
    with assms Some ne detectChanges_eq [of "data old" "data e"] show ?thesis
      by (auto simp: storeEnrichmentData_def Let_def)
  qed
qed

text \<open>
  The theorem on the test suite's pair of snapshots: \<^verbatim>\<open>employeeCount\<close> goes from
  500 to 600 under an unchanged \<^verbatim>\<open>industry\<close>.
\<close>

theorem storeEnrichmentData_result_witness:
  "fst (storeEnrichmentData ''t2''
      \<lparr>entityType = Company, entityId = ''company-1'', source = Apollo,
       data = [(''employeeCount'', JNum 600), (''industry'', JStr ''Technology'')],
       timestamp = ''t2''\<rparr>
      [''company:company-1:apollo'' \<mapsto>
         \<lparr>entityType = Company, entityId = ''company-1'', source = Apollo,
          data = [(''employeeCount'', JNum 500), (''industry'', JStr ''Technology'')],
          timestamp = ''t1''\<rparr>])
   = Some \<lparr>deltaEntityType = Company, deltaEntityId = ''company-1'',
           deltaHubspotId = JUndefined, deltaSource = Apollo,
           changes = [\<lparr>field = ''employeeCount'', oldValue = JNum 500,
                       newValue = JNum 600\<rparr>],
           deltaTimestamp = ''t2''\<rparr>"
proof -
  let ?e = "\<lparr>entityType = Company, entityId = ''company-1'', source = Apollo,
       data = [(''employeeCount'', JNum 600), (''industry'', JStr ''Technology'')],
       timestamp = ''t2''\<rparr>"
  let ?old = "\<lparr>entityType = Company, entityId = ''company-1'', source = Apollo,
          data = [(''employeeCount'', JNum 500), (''industry'', JStr ''Technology'')],
          timestamp = ''t1''\<rparr>"
  let ?st = "[''company:company-1:apollo'' \<mapsto> ?old]"
  have k: "getEnrichmentKey (entityType ?e) (entityId ?e) (source ?e)
             = ''company:company-1:apollo''"
    by (simp add: getEnrichmentKey_def)
  have ne: "\<not> deepEqual (JNum 500) (JNum 600)"
    by (simp add: deepEqual.simps)
  have eq: "deepEqual (JStr ''Technology'') (JStr ''Technology'')"
    by (simp add: deepEqual.simps)
  have u: "deepEqual JUndefined JUndefined"
    by (simp add: deepEqual.simps)
  obtain r st' where rs: "storeEnrichmentData ''t2'' ?e ?st = (r, st')"
    by (cases "storeEnrichmentData ''t2'' ?e ?st")
  from storeEnrichmentData_result [OF rs k [symmetric]]
  have "\<exists>d. r = Some d"
    by (simp add: trackableFields_def getField_def ne)
  then obtain d where d: "r = Some d" ..
  from storeEnrichmentData_result [OF rs k [symmetric]] d
  have "changes d = [\<lparr>field = ''employeeCount'', oldValue = JNum 500, newValue = JNum 600\<rparr>]"
    and "deltaEntityType d = Company" and "deltaEntityId d = ''company-1''"
    and "deltaSource d = Apollo"
    by (simp_all add: trackableFields_def getField_def ne eq u)
  moreover from rs d have "deltaHubspotId d = JUndefined" and "deltaTimestamp d = ''t2''"
    by (auto simp: storeEnrichmentData_def Let_def k getField_def split: if_splits)
  ultimately have "d = \<lparr>deltaEntityType = Company, deltaEntityId = ''company-1'',
           deltaHubspotId = JUndefined, deltaSource = Apollo,
           changes = [\<lparr>field = ''employeeCount'', oldValue = JNum 500,
                       newValue = JNum 600\<rparr>],
           deltaTimestamp = ''t2''\<rparr>"
    by simp
  with rs d show ?thesis by simp
qed

subsection \<open>Merging the two sources\<close>


lemma strictEquals_JUndefined [simp]: "strictEquals v JUndefined \<longleftrightarrow> v = JUndefined"
  by (cases v) simp_all

lemma strictEquals_JNull [simp]: "strictEquals v JNull \<longleftrightarrow> v = JNull"
  by (cases v) simp_all

lemma strictEquals_JStr [simp]: "strictEquals v (JStr s) \<longleftrightarrow> v = JStr s"
  by (cases v) auto









section \<open>Properties of the rule evaluator\<close>

subsection \<open>The range operator\<close>

text \<open>
  Claim C2, as amended. For a criterion with operator \<^verbatim>\<open>range\<close> and a numeric
  actual value \<open>x\<close>, the criterion matches exactly when \<open>x\<close> lies within
  \<open>[min, max]\<close>, where a missing \<^verbatim>\<open>minValue\<close> stands for \<open>-(2^53 - 1)\<close> and a
  missing \<^verbatim>\<open>maxValue\<close> for \<open>2^53 - 1\<close>; an actual value that is not a number is
  unmatched.
\<close>

theorem evaluateCriterion_range:
  assumes "critOperator c = OpRange"
  shows "(evaluateCriterion lc (JNum x) c \<longleftrightarrow>
            (case minValue c of None \<Rightarrow> - 9007199254740991 | Some m \<Rightarrow> m) \<le> x
            \<and> x \<le> (case maxValue c of None \<Rightarrow> 9007199254740991 | Some m \<Rightarrow> m))
    \<and> ((\<forall>y. v \<noteq> JNum y) \<longrightarrow> \<not> evaluateCriterion lc v c)"
  using assms
  by (cases v)
    (auto simp: evaluateCriterion_def MIN_SAFE_INTEGER_def MAX_SAFE_INTEGER_def Let_def
      split: option.splits)

text \<open>
  The theorem on the employee-count criterion without an upper bound: 500 matches,
  the text \<^verbatim>\<open>"500"\<close> does not.
\<close>

theorem evaluateCriterion_range_witness:
  "evaluateCriterion asciiToLowerCase (JNum 500)
     \<lparr>critName = ''Employee Count'', critField = ''employeeCount'', critWeight = 25 / 100,
      critOperator = OpRange, critValue = JNull, minValue = Some 50, maxValue = None\<rparr>
   \<and> \<not> evaluateCriterion asciiToLowerCase (JStr ''500'')
     \<lparr>critName = ''Employee Count'', critField = ''employeeCount'', critWeight = 25 / 100,
      critOperator = OpRange, critValue = JNull, minValue = Some 50, maxValue = None\<rparr>"
  using evaluateCriterion_range [of 
     "\<lparr>critName = ''Employee Count'', critField = ''employeeCount'', critWeight = 25 / 100,
      critOperator = OpRange, critValue = JNull, minValue = Some 50, maxValue = None\<rparr>"
      asciiToLowerCase 500 "JStr ''500''"]
  by simp

text \<open>
  Claim C2 as stated fails: with no \<^verbatim>\<open>maxValue\<close> the bound is not infinite, and
  the number \<open>2^53\<close>, above the lower bound 50, is unmatched.
\<close>

theorem range_unbounded_above_rejects_2_53:
  "\<not> evaluateCriterion asciiToLowerCase (JNum 9007199254740992)
     \<lparr>critName = ''Employee Count'', critField = ''employeeCount'', critWeight = 25 / 100,
      critOperator = OpRange, critValue = JNull, minValue = Some 50, maxValue = None\<rparr>"
  by (simp add: evaluateCriterion_def MAX_SAFE_INTEGER_def)

subsection \<open>ICP classification\<close>




lemma Math_round_0: "Math_round 0 = 0"
  by (simp add: Math_round_def)



subsection \<open>Persona classification\<close>

lemma bestMatchLoop_Some:
  "(bestMatchLoop lc cd ps (Some (bp, bs, bas)) = Some (bp, bs, bas)
      \<and> (\<forall>q \<in> set ps. fst (evaluatePersonaProfile lc cd q) \<le> bs))
   \<or> (\<exists>pre p post. ps = pre @ p # post
        \<and> bestMatchLoop lc cd ps (Some (bp, bs, bas))
            = Some (p, fst (evaluatePersonaProfile lc cd p), snd (evaluatePersonaProfile lc cd p))
        \<and> bs < fst (evaluatePersonaProfile lc cd p)
        \<and> (\<forall>q \<in> set pre. fst (evaluatePersonaProfile lc cd q)
                            < fst (evaluatePersonaProfile lc cd p))
        \<and> (\<forall>q \<in> set post. fst (evaluatePersonaProfile lc cd q)
                            \<le> fst (evaluatePersonaProfile lc cd p)))"
proof (induction ps arbitrary: bp bs bas)
  case Nil
  show ?case by simp
next
  case (Cons p0 rest)
  let ?sc = "\<lambda>q. fst (evaluatePersonaProfile lc cd q)"
  let ?at = "\<lambda>q. snd (evaluatePersonaProfile lc cd q)"
  show ?case
  proof (cases "?sc p0 > bs")
    case True
    then have step: "bestMatchLoop lc cd (p0 # rest) (Some (bp, bs, bas))
        = bestMatchLoop lc cd rest (Some (p0, ?sc p0, ?at p0))"
      by (cases "evaluatePersonaProfile lc cd p0") simp
    from Cons.IH [of p0 "?sc p0" "?at p0"] show ?thesis
    proof (elim disjE conjE exE)
      assume "bestMatchLoop lc cd rest (Some (p0, ?sc p0, ?at p0)) = Some (p0, ?sc p0, ?at p0)"
        and "\<forall>q \<in> set rest. ?sc q \<le> ?sc p0"
      with step True have "p0 # rest = [] @ p0 # rest
        \<and> bestMatchLoop lc cd (p0 # rest) (Some (bp, bs, bas)) = Some (p0, ?sc p0, ?at p0)
        \<and> bs < ?sc p0 \<and> (\<forall>q \<in> set []. ?sc q < ?sc p0) \<and> (\<forall>q \<in> set rest. ?sc q \<le> ?sc p0)"
        by simp
      then show ?thesis by blast
    next
      fix pre p post
      assume "rest = pre @ p # post"
        and "bestMatchLoop lc cd rest (Some (p0, ?sc p0, ?at p0)) = Some (p, ?sc p, ?at p)"
        and "?sc p0 < ?sc p" and "\<forall>q \<in> set pre. ?sc q < ?sc p"
        and "\<forall>q \<in> set post. ?sc q \<le> ?sc p"
      with step True have "p0 # rest = (p0 # pre) @ p # post
        \<and> bestMatchLoop lc cd (p0 # rest) (Some (bp, bs, bas)) = Some (p, ?sc p, ?at p)
        \<and> bs < ?sc p \<and> (\<forall>q \<in> set (p0 # pre). ?sc q < ?sc p)
        \<and> (\<forall>q \<in> set post. ?sc q \<le> ?sc p)"
        by simp
      then show ?thesis by blast
    qed
  next
    case False
    then have step: "bestMatchLoop lc cd (p0 # rest) (Some (bp, bs, bas))
        = bestMatchLoop lc cd rest (Some (bp, bs, bas))"
      by (cases "evaluatePersonaProfile lc cd p0") simp
    from Cons.IH [of bp bs bas] show ?thesis
    proof (elim disjE conjE exE)
      assume "bestMatchLoop lc cd rest (Some (bp, bs, bas)) = Some (bp, bs, bas)"
        and "\<forall>q \<in> set rest. ?sc q \<le> bs"
      with step False show ?thesis by simp
    next
      fix pre p post
      assume "rest = pre @ p # post"
        and "bestMatchLoop lc cd rest (Some (bp, bs, bas)) = Some (p, ?sc p, ?at p)"
        and "bs < ?sc p" and "\<forall>q \<in> set pre. ?sc q < ?sc p"
        and "\<forall>q \<in> set post. ?sc q \<le> ?sc p"
      with step False have "p0 # rest = (p0 # pre) @ p # post
        \<and> bestMatchLoop lc cd (p0 # rest) (Some (bp, bs, bas)) = Some (p, ?sc p, ?at p)
        \<and> bs < ?sc p \<and> (\<forall>q \<in> set (p0 # pre). ?sc q < ?sc p)
        \<and> (\<forall>q \<in> set post. ?sc q \<le> ?sc p)"
        by simp
      then show ?thesis by blast
    qed
  qed
qed

lemma bestMatchLoop_None:
  "\<exists>pre p post. p0 # rest = pre @ p # post
        \<and> bestMatchLoop lc cd (p0 # rest) None
            = Some (p, fst (evaluatePersonaProfile lc cd p), snd (evaluatePersonaProfile lc cd p))
        \<and> (\<forall>q \<in> set pre. fst (evaluatePersonaProfile lc cd q)
                            < fst (evaluatePersonaProfile lc cd p))
        \<and> (\<forall>q \<in> set post. fst (evaluatePersonaProfile lc cd q)
                            \<le> fst (evaluatePersonaProfile lc cd p))"
proof -
  let ?sc = "\<lambda>q. fst (evaluatePersonaProfile lc cd q)"
  let ?at = "\<lambda>q. snd (evaluatePersonaProfile lc cd q)"
  have step: "bestMatchLoop lc cd (p0 # rest) None
        = bestMatchLoop lc cd rest (Some (p0, ?sc p0, ?at p0))"
    by (cases "evaluatePersonaProfile lc cd p0") simp
  from bestMatchLoop_Some [of lc cd rest p0 "?sc p0" "?at p0"] show ?thesis
  proof (elim disjE conjE exE)
    assume "bestMatchLoop lc cd rest (Some (p0, ?sc p0, ?at p0)) = Some (p0, ?sc p0, ?at p0)"
      and "\<forall>q \<in> set rest. ?sc q \<le> ?sc p0"
    with step have "p0 # rest = [] @ p0 # rest
        \<and> bestMatchLoop lc cd (p0 # rest) None = Some (p0, ?sc p0, ?at p0)
        \<and> (\<forall>q \<in> set []. ?sc q < ?sc p0) \<and> (\<forall>q \<in> set rest. ?sc q \<le> ?sc p0)"
      by simp
    then show ?thesis by blast
  next
    fix pre p post
    assume "rest = pre @ p # post"
      and "bestMatchLoop lc cd rest (Some (p0, ?sc p0, ?at p0)) = Some (p, ?sc p, ?at p)"
      and "?sc p0 < ?sc p" and "\<forall>q \<in> set pre. ?sc q < ?sc p"
      and "\<forall>q \<in> set post. ?sc q \<le> ?sc p"
    with step have "p0 # rest = (p0 # pre) @ p # post
        \<and> bestMatchLoop lc cd (p0 # rest) None = Some (p, ?sc p, ?at p)
        \<and> (\<forall>q \<in> set (p0 # pre). ?sc q < ?sc p)
        \<and> (\<forall>q \<in> set post. ?sc q \<le> ?sc p)"
      by simp
    then show ?thesis by blast
  qed
qed

text \<open>
  Claim C8. With no profile configured, \<^verbatim>\<open>calculatePersonaScore\<close> returns the
  placeholder classification \<^verbatim>\<open>Unknown\<close> with score 0 and no attribute. With at
  least one profile it returns a profile \<open>p\<close> of the list, with the score and the
  attribute details \<^verbatim>\<open>evaluatePersonaProfile\<close> gives \<open>p\<close> on its own, such that
  every profile declared before \<open>p\<close> scores strictly less and every profile
  declared after \<open>p\<close> scores at most as much: the first profile of highest score.
  The function is total, so a classification is returned in every case.
\<close>

theorem calculatePersonaScore_best:
  assumes r: "r = calculatePersonaScore lc contactData profiles"
  shows "(profiles = [] \<longrightarrow>
            personaType r = ''Unknown'' \<and> personaMatchScore r = 0 \<and> personaAttributes r = [])
    \<and> (profiles \<noteq> [] \<longrightarrow>
          (\<exists>pre p post. profiles = pre @ p # post
             \<and> personaType r = personaName p
             \<and> personaMatchScore r = fst (evaluatePersonaProfile lc contactData p)
             \<and> personaAttributes r = snd (evaluatePersonaProfile lc contactData p)
             \<and> (\<forall>q \<in> set pre. fst (evaluatePersonaProfile lc contactData q)
                                < fst (evaluatePersonaProfile lc contactData p))
             \<and> (\<forall>q \<in> set post. fst (evaluatePersonaProfile lc contactData q)
                                \<le> fst (evaluatePersonaProfile lc contactData p))))"
proof (cases profiles)
  case Nil
  then show ?thesis by (simp add: r calculatePersonaScore_def)
next
  case (Cons p0 rest)
  from bestMatchLoop_None [of p0 rest lc contactData]
  obtain pre p post where s: "p0 # rest = pre @ p # post"
    and b: "bestMatchLoop lc contactData (p0 # rest) None
            = Some (p, fst (evaluatePersonaProfile lc contactData p),
                    snd (evaluatePersonaProfile lc contactData p))"
    and lt: "\<forall>q \<in> set pre. fst (evaluatePersonaProfile lc contactData q)
                                < fst (evaluatePersonaProfile lc contactData p)"
    and le: "\<forall>q \<in> set post. fst (evaluatePersonaProfile lc contactData q)
                                \<le> fst (evaluatePersonaProfile lc contactData p)"
    by blast
  have "personaType r = personaName p"
    and "personaMatchScore r = fst (evaluatePersonaProfile lc contactData p)"
    and "personaAttributes r = snd (evaluatePersonaProfile lc contactData p)"
    unfolding r calculatePersonaScore_def Cons b by (simp_all add: Let_def case_prod_beta)
  with s lt le Cons show ?thesis by blast
qed

lemma personaLoop_eq:
  "personaLoop lc cd as (attrs, tw, mw) =
     (attrs @ map (\<lambda>a. \<lparr>paName = attrName a,
                         paValue = (if truthy (getField cd (attrField a))
                                    then getField cd (attrField a) else JStr []),
                         paWeight = attrWeight a,
                         paMatched = evaluatePersonaAttribute lc (getField cd (attrField a)) a\<rparr>)
                as,
      tw + sum_list (map attrWeight as),
      mw + sum_list (map attrWeight
             (filter (\<lambda>a. evaluatePersonaAttribute lc (getField cd (attrField a)) a) as)))"
  by (induction as arbitrary: attrs tw mw) (simp_all add: Let_def)

lemma evaluatePersonaAttribute_not_string:
  "(\<forall>s. v \<noteq> JStr s) \<Longrightarrow> \<not> evaluatePersonaAttribute lc v attr"
  by (cases v) (simp_all add: evaluatePersonaAttribute_def)

lemma evaluatePersonaProfile_empty_contact:
  "fst (evaluatePersonaProfile lc [] p) = 0"
proof -
  have "filter (\<lambda>a. evaluatePersonaAttribute lc (getField [] (attrField a)) a) (attributes p) = []"
    by (simp add: filter_empty_conv getField_def evaluatePersonaAttribute_not_string)
  then show ?thesis
    by (simp add: evaluatePersonaProfile_def personaLoop_eq Math_round_0)
qed

text \<open>
  The theorem on the default profiles and a contact without attributes: all
  profiles score 0 and the first declared one is returned.
\<close>

theorem calculatePersonaScore_best_witness:
  "defaultPersonaProfiles \<noteq> []
   \<and> personaType (calculatePersonaScore asciiToLowerCase [] defaultPersonaProfiles)
       = ''Decision Maker''
   \<and> personaMatchScore (calculatePersonaScore asciiToLowerCase [] defaultPersonaProfiles) = 0"
proof -
  let ?r = "calculatePersonaScore asciiToLowerCase [] defaultPersonaProfiles"
  have ne: "defaultPersonaProfiles \<noteq> []"
    by (simp add: defaultPersonaProfiles_def)
  with calculatePersonaScore_best
    [where lc = asciiToLowerCase and contactData = "[]" and profiles = defaultPersonaProfiles,
      OF refl]
  obtain pre p post where s: "defaultPersonaProfiles = pre @ p # post"
    and t: "personaType ?r = personaName p"
    and m: "personaMatchScore ?r = fst (evaluatePersonaProfile asciiToLowerCase [] p)"
    and lt: "\<forall>q \<in> set pre. fst (evaluatePersonaProfile asciiToLowerCase [] q)
                            < fst (evaluatePersonaProfile asciiToLowerCase [] p)"
    by blast
  have "pre = []"
  proof (rule ccontr)
    assume "pre \<noteq> []"
    then obtain q where "q \<in> set pre" by (cases pre) auto
    with lt have "fst (evaluatePersonaProfile asciiToLowerCase [] q)
                  < fst (evaluatePersonaProfile asciiToLowerCase [] p)"
      by blast
    then show False by (simp add: evaluatePersonaProfile_empty_contact)
  qed
  with s have "hd defaultPersonaProfiles = hd (p # post)"
    by (simp only: append_Nil)
  then have "p = hd defaultPersonaProfiles"
    by (simp only: list.sel)
  then have "personaName p = ''Decision Maker''"
    by (simp add: defaultPersonaProfiles_def)
  with t m ne show ?thesis
    by (simp add: evaluatePersonaProfile_empty_contact)
qed

lemma String_includes_iff: "String_includes s t \<longleftrightarrow> (\<exists>pre post. s = pre @ t @ post)"
proof (induction s)
  case Nil
  show ?case by simp
next
  case (Cons c s)
  show ?case
  proof
    assume "String_includes (c # s) t"
    then consider "take (length t) (c # s) = t" | "String_includes s t" by auto
    then show "\<exists>pre post. c # s = pre @ t @ post"
    proof cases
      case 1
      then have "c # s = [] @ t @ drop (length t) (c # s)"
        by (metis append_Nil append_take_drop_id)
      then show ?thesis by blast
    next
      case 2
      with Cons.IH obtain pre post where "s = pre @ t @ post" by blast
      then have "c # s = (c # pre) @ t @ post" by simp
      then show ?thesis by blast
    qed
  next
    assume "\<exists>pre post. c # s = pre @ t @ post"
    then obtain pre post where e: "c # s = pre @ t @ post" by blast
    show "String_includes (c # s) t"
    proof (cases pre)
      case Nil
      with e have "take (length t) (c # s) = t" by simp
      then show ?thesis by simp
    next
      case (Cons c' pre')
      with e have "s = pre' @ t @ post" by simp
      with Cons.IH have "String_includes s t" by blast
      then show ?thesis by simp
    qed
  qed
qed

text \<open>
  Claim C10. \<^verbatim>\<open>evaluatePersonaAttribute\<close> rejects every actual value that is not
  a string, whatever the operator: absent, \<^verbatim>\<open>null\<close>, numbers and booleans never
  match. On a string, \<^verbatim>\<open>equals\<close> and \<^verbatim>\<open>in\<close> ask for a configured value with
  the same lower-cased form, and \<^verbatim>\<open>contains\<close> for one whose lower-cased form
  occurs in the lower-cased actual value; so the result depends on the actual value
  and on the configured values through their lower-cased forms only. ICP
  evaluation differs: its \<^verbatim>\<open>equals\<close> matches a number or a boolean against an
  equal configured value.
\<close>

theorem evaluatePersonaAttribute_strings_only:
  "((\<forall>s. v \<noteq> JStr s) \<longrightarrow> \<not> evaluatePersonaAttribute lc v attr)
   \<and> \<not> evaluatePersonaAttribute lc JUndefined attr
   \<and> \<not> evaluatePersonaAttribute lc JNull attr
   \<and> \<not> evaluatePersonaAttribute lc (JNum x) attr
   \<and> \<not> evaluatePersonaAttribute lc (JBool b) attr
   \<and> (evaluatePersonaAttribute lc (JStr s) attr \<longleftrightarrow>
        (case attrOperator attr of
           POpEquals \<Rightarrow> \<exists>e \<in> set (attrValues attr). lc s = lc e
         | POpContains \<Rightarrow> \<exists>e \<in> set (attrValues attr). \<exists>pre post. lc s = pre @ lc e @ post
         | POpIn \<Rightarrow> \<exists>e \<in> set (attrValues attr). lc s = lc e))
   \<and> (lc s = lc s' \<longrightarrow>
        evaluatePersonaAttribute lc (JStr s) attr = evaluatePersonaAttribute lc (JStr s') attr)
   \<and> (attrOperator attr' = attrOperator attr
        \<and> map lc (attrValues attr') = map lc (attrValues attr) \<longrightarrow>
        evaluatePersonaAttribute lc v attr' = evaluatePersonaAttribute lc v attr)
   \<and> evaluateCriterion lc (JNum x) (c\<lparr>critOperator := OpEquals, critValue := JNum x\<rparr>)
   \<and> evaluateCriterion lc (JBool b) (c\<lparr>critOperator := OpEquals, critValue := JBool b\<rparr>)"
proof -
  have str: "evaluatePersonaAttribute lc (JStr s) a \<longleftrightarrow>
        (case attrOperator a of
           POpEquals \<Rightarrow> \<exists>e \<in> set (attrValues a). lc s = lc e
         | POpContains \<Rightarrow> \<exists>e \<in> set (attrValues a). \<exists>pre post. lc s = pre @ lc e @ post
         | POpIn \<Rightarrow> \<exists>e \<in> set (attrValues a). lc s = lc e)" for s a
    by (cases "attrOperator a")
      (simp_all add: evaluatePersonaAttribute_def Let_def list_ex_iff String_includes_iff)
  have strm: "evaluatePersonaAttribute lc (JStr s) a \<longleftrightarrow>
        (case attrOperator a of
           POpEquals \<Rightarrow> lc s \<in> set (map lc (attrValues a))
         | POpContains \<Rightarrow> \<exists>e \<in> set (map lc (attrValues a)). \<exists>pre post. lc s = pre @ e @ post
         | POpIn \<Rightarrow> lc s \<in> set (map lc (attrValues a)))" for s a
    unfolding str by (cases "attrOperator a") auto
  have cfg: "evaluatePersonaAttribute lc v attr' = evaluatePersonaAttribute lc v attr"
    if "attrOperator attr' = attrOperator attr"
      and "map lc (attrValues attr') = map lc (attrValues attr)"
  proof (cases v)
    case (JStr s)
    show ?thesis unfolding JStr strm that by (rule refl)
  qed (simp_all add: evaluatePersonaAttribute_not_string)
  have case_ins: "evaluatePersonaAttribute lc (JStr s) attr
                  = evaluatePersonaAttribute lc (JStr s') attr" if "lc s = lc s'"
    unfolding str that by (rule refl)
  have icp: "evaluateCriterion lc (JNum x) (c\<lparr>critOperator := OpEquals, critValue := JNum x\<rparr>)"
    "evaluateCriterion lc (JBool b) (c\<lparr>critOperator := OpEquals, critValue := JBool b\<rparr>)"
    by (simp_all add: evaluateCriterion_def)
  from str [of s attr] cfg case_ins icp show ?thesis
    by (simp add: evaluatePersonaAttribute_not_string)
qed

text \<open>
  The theorem on the seniority attribute of the first default profile, with ASCII
  lower-casing: the number 5 does not match, the text \<^verbatim>\<open>vp\<close> does.
\<close>

theorem evaluatePersonaAttribute_strings_only_witness:
  "\<not> evaluatePersonaAttribute asciiToLowerCase (JNum 5)
       \<lparr>attrName = ''Seniority'', attrField = ''seniority'', attrWeight = 2 / 10,
        attrOperator = POpIn, attrValues = [''C-Level'', ''VP'', ''Director'']\<rparr>
   \<and> asciiToLowerCase ''vp'' = asciiToLowerCase ''VP''
   \<and> evaluatePersonaAttribute asciiToLowerCase (JStr ''vp'')
       \<lparr>attrName = ''Seniority'', attrField = ''seniority'', attrWeight = 2 / 10,
        attrOperator = POpIn, attrValues = [''C-Level'', ''VP'', ''Director'']\<rparr>"
proof -
  have l: "asciiToLowerCase ''vp'' = asciiToLowerCase ''VP''"
    by (simp add: asciiToLowerCase_def asciiLowerChar_def)
  from evaluatePersonaAttribute_strings_only
    [where lc = asciiToLowerCase and v = "JNum 5" and x = 5 and s = "''vp''" and s' = "''VP''"
       and attr = "\<lparr>attrName = ''Seniority'', attrField = ''seniority'', attrWeight = 2 / 10,
        attrOperator = POpIn, attrValues = [''C-Level'', ''VP'', ''Director'']\<rparr>"]
  show ?thesis
    using l by simp
qed

section \<open>Properties of the score calculator\<close>

subsection \<open>Decay and the per-source score\<close>

lemma sourceScoreLoop_eq:
  "sourceScoreLoop now d xs (ws, tw) =
     (ws + sum_list (map (\<lambda>s. signalStrength s * calculateDecay now (sigTimestamp s) d) xs),
      tw + sum_list (map (\<lambda>s. calculateDecay now (sigTimestamp s) d) xs))"
  by (induction xs arbitrary: ws tw) (simp_all add: Let_def)

lemma calculateDecay_zero:
  assumes "0 < (now - t) / (1000 * 60 * 60 * 24)" and "d \<le> (now - t) / (1000 * 60 * 60 * 24)"
  shows "calculateDecay now t d = 0"
  using assms by (simp add: calculateDecay_def Let_def)

lemma calculateDecay_range: "0 \<le> calculateDecay now t d \<and> calculateDecay now t d \<le> 1"
proof -
  let ?a = "(now - t) / (1000 * 60 * 60 * 24)"
  show ?thesis
  proof (cases "?a \<le> 0 \<or> ?a \<ge> d")
    case True
    then show ?thesis by (auto simp: calculateDecay_def Let_def)
  next
    case False
    then have a: "0 < ?a" "?a < d" by auto
    then have "0 < d" by linarith
    with a have "0 < ?a / d" "?a / d < 1" by simp_all
    with False show ?thesis by (simp add: calculateDecay_def Let_def)
  qed
qed

text \<open>
  Claim C9, as amended. The age of a signal is \<open>(now - timestamp)\<close> in days. A
  signal whose age is positive and at least the configured decay window has decay
  0, and the per-source score over a list with such a signal appended equals the
  score over the list without it: the signal adds nothing to the weighted sum and
  nothing to the total weight.
\<close>

theorem calculateSourceScore_decayed_signal:
  assumes "0 < (now - sigTimestamp s) / (1000 * 60 * 60 * 24)"
    and "d \<le> (now - sigTimestamp s) / (1000 * 60 * 60 * 24)"
  shows "calculateDecay now (sigTimestamp s) d = 0
    \<and> calculateSourceScore now (signals @ [s]) d = calculateSourceScore now signals d"
proof -
  have z: "calculateDecay now (sigTimestamp s) d = 0"
    using assms by (rule calculateDecay_zero)
  show ?thesis
  proof (cases signals)
    case Nil
    with z show ?thesis by (simp add: calculateSourceScore_def)
  next
    case (Cons x xs)
    with z show ?thesis
      by (simp add: calculateSourceScore_def sourceScoreLoop_eq)
  qed
qed

text \<open>
  The theorem with a window of 30 days, a fresh signal of strength 80 and an
  appended signal that is exactly 30 days old.
\<close>

theorem calculateSourceScore_decayed_signal_witness:
  "calculateSourceScore 2592000000
     ([\<lparr>sigSource = Apollo, sigCompanyId = ''c1'', sigCompanyName = ''Acme'',
        sigDomain = None, topic = ''Cloud'', signalStrength = 80,
        sigTimestamp = 2592000000\<rparr>]
      @ [\<lparr>sigSource = Apollo, sigCompanyId = ''c1'', sigCompanyName = ''Acme'',
          sigDomain = None, topic = ''AI'', signalStrength = 20, sigTimestamp = 0\<rparr>]) 30
   = 80"
proof -
  have "calculateSourceScore 2592000000
     [\<lparr>sigSource = Apollo, sigCompanyId = ''c1'', sigCompanyName = ''Acme'',
        sigDomain = None, topic = ''Cloud'', signalStrength = 80,
        sigTimestamp = 2592000000\<rparr>] 30 = 80"
    by (simp add: calculateSourceScore_def calculateDecay_def)
  with calculateSourceScore_decayed_signal
    [where now = 2592000000 and d = 30
       and s = "\<lparr>sigSource = Apollo, sigCompanyId = ''c1'', sigCompanyName = ''Acme'',
          sigDomain = None, topic = ''AI'', signalStrength = 20, sigTimestamp = 0\<rparr>"
       and signals = "[\<lparr>sigSource = Apollo, sigCompanyId = ''c1'', sigCompanyName = ''Acme'',
        sigDomain = None, topic = ''Cloud'', signalStrength = 80,
        sigTimestamp = 2592000000\<rparr>]"]
  show ?thesis by simp
qed

text \<open>
  Claim C9 as stated fails when the window is not positive: \<^verbatim>\<open>calculateDecay\<close>
  tests \<^verbatim>\<open>daysDiff <= 0\<close> first, so with a window of 0 days a signal of age 0,
  which is at least the window, has decay 1 and moves the score from 80 to 50.
\<close>

theorem zero_window_signal_counts:
  "(1000 - sigTimestamp \<lparr>sigSource = Apollo, sigCompanyId = ''c1'', sigCompanyName = ''Acme'',
          sigDomain = None, topic = ''AI'', signalStrength = 20, sigTimestamp = 1000\<rparr>)
      / (1000 * 60 * 60 * 24) \<ge> (0::real)
   \<and> calculateSourceScore 1000
     [\<lparr>sigSource = Apollo, sigCompanyId = ''c1'', sigCompanyName = ''Acme'',
        sigDomain = None, topic = ''Cloud'', signalStrength = 80,
        sigTimestamp = 1000\<rparr>] 0 = 80
   \<and> calculateSourceScore 1000
     ([\<lparr>sigSource = Apollo, sigCompanyId = ''c1'', sigCompanyName = ''Acme'',
        sigDomain = None, topic = ''Cloud'', signalStrength = 80,
        sigTimestamp = 1000\<rparr>]
      @ [\<lparr>sigSource = Apollo, sigCompanyId = ''c1'', sigCompanyName = ''Acme'',
          sigDomain = None, topic = ''AI'', signalStrength = 20, sigTimestamp = 1000\<rparr>]) 0
     = 50"
  by (simp add: calculateSourceScore_def calculateDecay_def)

subsection \<open>Trend and spike against the cached score\<close>

lemma calculateUnifiedScore_None:
  "getSignalsForCompany cid st = [] \<Longrightarrow> calculateUnifiedScore cfg now cid st = (None, st)"
  by (simp add: calculateUnifiedScore_def)

lemma calculateUnifiedScore_Some:
  assumes "getSignalsForCompany cid st \<noteq> []"
  shows "\<exists>sc. calculateUnifiedScore cfg now cid st
                = (Some sc, st\<lparr>scoreCache := (scoreCache st)(cid \<mapsto> sc)\<rparr>)
     \<and> overallScore sc =
          Math_round
            (calculateSourceScore now
               (filter (\<lambda>s. sigSource s = Apollo) (getSignalsForCompany cid st))
               (decayDays cfg) * apolloWeight cfg
             + calculateSourceScore now
                 (filter (\<lambda>s. sigSource s = ZoomInfo) (getSignalsForCompany cid st))
                 (decayDays cfg) * zoomInfoWeight cfg)
     \<and> trend sc = determineTrend (overallScore sc)
                    (map_option overallScore (scoreCache st cid))
     \<and> isSpike sc = checkForSpike (overallScore sc)
                      (map_option overallScore (scoreCache st cid))
                      (spikeThresholdPercent cfg)"
  using assms by (simp add: calculateUnifiedScore_def Let_def)

lemma getSignalsForCompany_addIntentSignal:
  "getSignalsForCompany cid (addIntentSignal s st) =
     (if cid = sigCompanyId s then getSignalsForCompany cid st @ [s]
      else getSignalsForCompany cid st)"
  by (simp add: getSignalsForCompany_def addIntentSignal_def Let_def)


lemma Math_round_nonneg: "0 \<le> x \<Longrightarrow> 0 \<le> Math_round x"
  by (simp add: Math_round_def)

lemma calculateSourceScore_nonneg:
  assumes "\<forall>s \<in> set signals. 0 \<le> signalStrength s"
  shows "0 \<le> calculateSourceScore now signals d"
proof -
  have d: "0 \<le> calculateDecay now t d" for t
    using calculateDecay_range [of now t d] by simp
  have ws: "0 \<le> sum_list (map (\<lambda>s. signalStrength s * calculateDecay now (sigTimestamp s) d)
                              signals)"
    using assms d by (intro sum_list_nonneg) auto
  have tw: "0 \<le> sum_list (map (\<lambda>s. calculateDecay now (sigTimestamp s) d) signals)"
    using d by (intro sum_list_nonneg) auto
  from ws tw show ?thesis
    by (simp add: calculateSourceScore_def sourceScoreLoop_eq)
qed

lemma calculateUnifiedScore_nonneg:
  assumes "calculateUnifiedScore cfg now cid st = (Some sc, st')"
    and "\<forall>s \<in> set (getSignalsForCompany cid st). 0 \<le> signalStrength s"
    and "0 \<le> apolloWeight cfg" and "0 \<le> zoomInfoWeight cfg"
  shows "0 \<le> overallScore sc"
proof -
  have ne: "getSignalsForCompany cid st \<noteq> []"
    using assms(1) by (auto simp: calculateUnifiedScore_None)
  have a: "0 \<le> calculateSourceScore now
               (filter (\<lambda>s. sigSource s = Apollo) (getSignalsForCompany cid st)) (decayDays cfg)"
    using assms(2) by (intro calculateSourceScore_nonneg) auto
  have z: "0 \<le> calculateSourceScore now
               (filter (\<lambda>s. sigSource s = ZoomInfo) (getSignalsForCompany cid st)) (decayDays cfg)"
    using assms(2) by (intro calculateSourceScore_nonneg) auto
  from calculateUnifiedScore_Some [OF ne, of cfg now] assms(1)
  have "overallScore sc =
          Math_round
            (calculateSourceScore now
               (filter (\<lambda>s. sigSource s = Apollo) (getSignalsForCompany cid st))
               (decayDays cfg) * apolloWeight cfg
             + calculateSourceScore now
                 (filter (\<lambda>s. sigSource s = ZoomInfo) (getSignalsForCompany cid st))
                 (decayDays cfg) * zoomInfoWeight cfg)"
    by auto
  with a z assms(3,4) show ?thesis
    by (simp add: Math_round_nonneg)
qed



text \<open>
  Claim C6, as amended. For an entity with at least one signal and a configured
  spike threshold percent that is positive, two calls of \<^verbatim>\<open>calculateUnifiedScore\<close>
  in succession, at the same instant, with the same configuration and no signal
  added in between, both return a score; the first call leaves its score in the
  cache, and the second has the overall score of the first, trend \<^verbatim>\<open>stable\<close>
  and no spike.
\<close>

theorem calculateUnifiedScore_twice:
  assumes ne: "getSignalsForCompany cid st \<noteq> []"
    and th: "0 < spikeThresholdPercent cfg"
  shows "\<exists>s1 s2. fst (calculateUnifiedScore cfg now cid st) = Some s1
     \<and> scoreCache (snd (calculateUnifiedScore cfg now cid st)) cid = Some s1
     \<and> fst (calculateUnifiedScore cfg now cid (snd (calculateUnifiedScore cfg now cid st)))
         = Some s2
     \<and> overallScore s2 = overallScore s1
     \<and> trend s2 = Stable \<and> \<not> isSpike s2"
proof -
  from calculateUnifiedScore_Some [OF ne, of cfg now]
  obtain s1 where r1: "calculateUnifiedScore cfg now cid st
                = (Some s1, st\<lparr>scoreCache := (scoreCache st)(cid \<mapsto> s1)\<rparr>)"
    and o1: "overallScore s1 =
          Math_round
            (calculateSourceScore now
               (filter (\<lambda>s. sigSource s = Apollo) (getSignalsForCompany cid st))
               (decayDays cfg) * apolloWeight cfg
             + calculateSourceScore now
                 (filter (\<lambda>s. sigSource s = ZoomInfo) (getSignalsForCompany cid st))
                 (decayDays cfg) * zoomInfoWeight cfg)"
    by blast
  let ?st1 = "st\<lparr>scoreCache := (scoreCache st)(cid \<mapsto> s1)\<rparr>"
  have sig: "getSignalsForCompany cid ?st1 = getSignalsForCompany cid st"
    by (simp add: getSignalsForCompany_def)
  with ne have ne1: "getSignalsForCompany cid ?st1 \<noteq> []" by simp
  from calculateUnifiedScore_Some [OF ne1, of cfg now]
  obtain s2 where r2: "fst (calculateUnifiedScore cfg now cid ?st1) = Some s2"
    and o2: "overallScore s2 =
          Math_round
            (calculateSourceScore now
               (filter (\<lambda>s. sigSource s = Apollo) (getSignalsForCompany cid ?st1))
               (decayDays cfg) * apolloWeight cfg
             + calculateSourceScore now
                 (filter (\<lambda>s. sigSource s = ZoomInfo) (getSignalsForCompany cid ?st1))
                 (decayDays cfg) * zoomInfoWeight cfg)"
    and t2: "trend s2 = determineTrend (overallScore s2)
                    (map_option overallScore (scoreCache ?st1 cid))"
    and i2: "isSpike s2 = checkForSpike (overallScore s2)
                      (map_option overallScore (scoreCache ?st1 cid))
                      (spikeThresholdPercent cfg)"
    by auto
  from o1 o2 sig have eq: "overallScore s2 = overallScore s1" by simp
  from t2 eq have "trend s2 = Stable"
    by (simp add: determineTrend_def)
  moreover from i2 eq th have "\<not> isSpike s2"
    by (simp add: checkForSpike_def)
  ultimately show ?thesis
    using r1 r2 eq by simp
qed

text \<open>The theorem under the default configuration, on one fresh signal.\<close>

theorem calculateUnifiedScore_twice_witness:
  "map_option trend
     (fst (calculateUnifiedScore defaultConfig 1000 ''c1''
        (snd (calculateUnifiedScore defaultConfig 1000 ''c1''
           (addIntentSignal
              \<lparr>sigSource = Apollo, sigCompanyId = ''c1'', sigCompanyName = ''Acme'',
               sigDomain = None, topic = ''Cloud'', signalStrength = 80,
               sigTimestamp = 1000\<rparr>
              \<lparr>signalStore = Map.empty, scoreCache = Map.empty\<rparr>))))) = Some Stable
   \<and> map_option isSpike
     (fst (calculateUnifiedScore defaultConfig 1000 ''c1''
        (snd (calculateUnifiedScore defaultConfig 1000 ''c1''
           (addIntentSignal
              \<lparr>sigSource = Apollo, sigCompanyId = ''c1'', sigCompanyName = ''Acme'',
               sigDomain = None, topic = ''Cloud'', signalStrength = 80,
               sigTimestamp = 1000\<rparr>
              \<lparr>signalStore = Map.empty, scoreCache = Map.empty\<rparr>))))) = Some False"
proof -
  let ?st = "addIntentSignal
              \<lparr>sigSource = Apollo, sigCompanyId = ''c1'', sigCompanyName = ''Acme'',
               sigDomain = None, topic = ''Cloud'', signalStrength = 80,
               sigTimestamp = 1000\<rparr>
              \<lparr>signalStore = Map.empty, scoreCache = Map.empty\<rparr>"
  have ne: "getSignalsForCompany ''c1'' ?st \<noteq> []"
    by (simp add: getSignalsForCompany_addIntentSignal)
  have th: "0 < spikeThresholdPercent defaultConfig"
    by (simp add: defaultConfig_def)
  from calculateUnifiedScore_twice [OF ne th, of 1000] show ?thesis
    by auto
qed

text \<open>
  Claim C6 as stated fails for a threshold of 0 percent: the second call compares
  the score 40 with the cached 40, an increase of 0 percent, which reaches the
  threshold, and reports a spike.
\<close>

theorem zero_threshold_second_call_spikes:
  "map_option isSpike
     (fst (calculateUnifiedScore (defaultConfig\<lparr>spikeThresholdPercent := 0\<rparr>) 1000 ''c1''
        (snd (calculateUnifiedScore (defaultConfig\<lparr>spikeThresholdPercent := 0\<rparr>) 1000 ''c1''
           (addIntentSignal
              \<lparr>sigSource = Apollo, sigCompanyId = ''c1'', sigCompanyName = ''Acme'',
               sigDomain = None, topic = ''Cloud'', signalStrength = 80,
               sigTimestamp = 1000\<rparr>
              \<lparr>signalStore = Map.empty, scoreCache = Map.empty\<rparr>))))) = Some True"
proof -
  let ?cfg = "defaultConfig\<lparr>spikeThresholdPercent := 0\<rparr>"
  let ?sig = "\<lparr>sigSource = Apollo, sigCompanyId = ''c1'', sigCompanyName = ''Acme'',
               sigDomain = None, topic = ''Cloud'', signalStrength = 80,
               sigTimestamp = 1000\<rparr>"
  let ?st = "addIntentSignal ?sig \<lparr>signalStore = Map.empty, scoreCache = Map.empty\<rparr>"
  let ?overall = "\<lambda>sigs. Math_round
            (calculateSourceScore 1000 (filter (\<lambda>s. sigSource s = Apollo) sigs)
               (decayDays ?cfg) * apolloWeight ?cfg
             + calculateSourceScore 1000 (filter (\<lambda>s. sigSource s = ZoomInfo) sigs)
                 (decayDays ?cfg) * zoomInfoWeight ?cfg)"
  have ov: "?overall [?sig] = 40"
    by (simp add: defaultConfig_def calculateSourceScore_def calculateDecay_def Math_round_def)
  have sigs: "getSignalsForCompany ''c1'' ?st = [?sig]"
    by (simp add: getSignalsForCompany_def addIntentSignal_def Let_def)
  then have ne: "getSignalsForCompany ''c1'' ?st \<noteq> []" by simp
  from calculateUnifiedScore_Some [OF ne, of ?cfg 1000]
  obtain s1 where r1: "calculateUnifiedScore ?cfg 1000 ''c1'' ?st
                = (Some s1, ?st\<lparr>scoreCache := (scoreCache ?st)(''c1'' \<mapsto> s1)\<rparr>)"
    and o1: "overallScore s1 = ?overall (getSignalsForCompany ''c1'' ?st)"
    by blast
  let ?st1 = "?st\<lparr>scoreCache := (scoreCache ?st)(''c1'' \<mapsto> s1)\<rparr>"
  have sigs1: "getSignalsForCompany ''c1'' ?st1 = [?sig]"
    using sigs by (simp add: getSignalsForCompany_def)
  then have ne1: "getSignalsForCompany ''c1'' ?st1 \<noteq> []" by simp
  from calculateUnifiedScore_Some [OF ne1, of ?cfg 1000]
  obtain s2 where r2: "fst (calculateUnifiedScore ?cfg 1000 ''c1'' ?st1) = Some s2"
    and o2: "overallScore s2 = ?overall (getSignalsForCompany ''c1'' ?st1)"
    and i2: "isSpike s2 = checkForSpike (overallScore s2)
                      (map_option overallScore (scoreCache ?st1 ''c1''))
                      (spikeThresholdPercent ?cfg)"
    by auto
  from o1 have p1: "overallScore s1 = 40" unfolding sigs ov .
  from o2 have p2: "overallScore s2 = 40" unfolding sigs1 ov .
  from i2 have "isSpike s2"
    unfolding p2 by (simp add: checkForSpike_def p1)
  with r1 r2 show ?thesis by simp
qed

end
